theory Spec2Isabelle
  imports Main
begin

section \<open>publish\_layers.py: publishing unassigned GeoServer layers\<close>

text \<open>
  A shallow embedding of \<^verbatim>\<open>src/geoserver-utils/publish_layers.py\<close>.

  \<^item> Python values that travel through the script (parsed JSON, layer names, titles)
    are values of the datatype \<open>pyval\<close>; a \<open>PDict\<close> lists its items in insertion
    order, with distinct keys, as a Python dict does. JSON floats are not modelled.
  \<^item> Strings are \<open>char list\<close>; the model reads them as ASCII text.
  \<^item> Every exception is a value of \<open>py_error\<close>; a function that can raise returns
    \<open>py_error + 'a\<close>. \<^verbatim>\<open>JSONDecodeError\<close> is the one exception the script names in
    an \<^verbatim>\<open>except\<close> clause; what else a library raises (\<^verbatim>\<open>RecursionError\<close> from
    \<^verbatim>\<open>json.loads\<close> on deep nesting, the errors of \<^verbatim>\<open>requests\<close>) passes it by.
  \<^item> The libraries the script calls (\<^verbatim>\<open>requests.request\<close>, \<^verbatim>\<open>json.loads\<close>,
    \<^verbatim>\<open>json.dumps\<close>) are not code of the script: they are the fields of a record
    \<open>lib\<close> that every function takes.
  \<^item> The program state is explicit: the remote world, the trace of requests handed to
    \<^verbatim>\<open>requests.request\<close>, the text written to standard output, and a heap of dict
    objects (the module-level \<^verbatim>\<open>layer_template\<close> lives at address 0).
\<close>

subsection \<open>Python values and errors\<close>

datatype pyval =
    PNone
  | PBool bool
  | PInt int
  | PStr string
  | PList "pyval list"
  | PDict "(string \<times> pyval) list"

datatype py_error =
    KeyError string
  | TypeError
  | AttributeError
  | ValueError string
  | Exception string
  | JSONDecodeError
  | RecursionError
  | UnboundLocalError
  | RequestsError string

type_synonym dict = "(string \<times> pyval) list"

text \<open>\<^verbatim>\<open>d[k]\<close> on a dict value, and \<^verbatim>\<open>d[k] = v\<close>: an existing key keeps its place,
  a new key goes to the end.\<close>

definition dict_get :: "dict \<Rightarrow> string \<Rightarrow> pyval option" where
  "dict_get d k = map_of d k"

fun dict_set :: "dict \<Rightarrow> string \<Rightarrow> pyval \<Rightarrow> dict" where
  "dict_set [] k v = [(k, v)]"
| "dict_set ((k', v') # d) k v =
     (if k' = k then (k, v) # d else (k', v') # dict_set d k v)"

text \<open>\<^verbatim>\<open>x[key]\<close> with a string key: a dict looks the key up (KeyError when absent);
  a list or a string takes integer indices only; the other values are not subscriptable.\<close>

fun getitem :: "pyval \<Rightarrow> string \<Rightarrow> py_error + pyval" where
  "getitem (PDict d) k = (case dict_get d k of None \<Rightarrow> Inl (KeyError k) | Some v \<Rightarrow> Inr v)"
| "getitem _ k = Inl TypeError"

fun is_prefix :: "string \<Rightarrow> string \<Rightarrow> bool" where
  "is_prefix [] s = True"
| "is_prefix (c # p) [] = False"
| "is_prefix (c # p) (d # s) = (c = d \<and> is_prefix p s)"

fun str_contains :: "string \<Rightarrow> string \<Rightarrow> bool" where
  "str_contains [] p = (p = [])"
| "str_contains (c # s) p = (is_prefix p (c # s) \<or> str_contains s p)"

text \<open>\<^verbatim>\<open>key in x\<close> with a string key: key membership for a dict, element membership for a
  list, substring test for a string, TypeError for the rest.\<close>

fun contains :: "pyval \<Rightarrow> string \<Rightarrow> py_error + bool" where
  "contains (PDict d) k = Inr (k \<in> set (map fst d))"
| "contains (PList xs) k = Inr (PStr k \<in> set xs)"
| "contains (PStr s) k = Inr (str_contains s k)"
| "contains _ k = Inl TypeError"

text \<open>\<^verbatim>\<open>for x in v\<close>: the elements of a list, the characters of a string, the keys of a
  dict.\<close>

fun py_iter :: "pyval \<Rightarrow> py_error + pyval list" where
  "py_iter (PList xs) = Inr xs"
| "py_iter (PStr s) = Inr (map (\<lambda>c. PStr [c]) s)"
| "py_iter (PDict d) = Inr (map (\<lambda>kv. PStr (fst kv)) d)"
| "py_iter _ = Inl TypeError"

fun py_len :: "pyval \<Rightarrow> py_error + int" where
  "py_len (PList xs) = Inr (int (length xs))"
| "py_len (PStr s) = Inr (int (length s))"
| "py_len (PDict d) = Inr (int (length d))"
| "py_len _ = Inl TypeError"

fun truthy :: "pyval \<Rightarrow> bool" where
  "truthy PNone = False"
| "truthy (PBool b) = b"
| "truthy (PInt i) = (i \<noteq> 0)"
| "truthy (PStr s) = (s \<noteq> [])"
| "truthy (PList xs) = (xs \<noteq> [])"
| "truthy (PDict d) = (d \<noteq> [])"

subsection \<open>String formatting\<close>

definition digit_char :: "nat \<Rightarrow> char" where
  "digit_char n = ''0123456789abcdef'' ! n"

function show_nat :: "nat \<Rightarrow> string" where
  "show_nat n = (if n < 10 then [digit_char n] else show_nat (n div 10) @ [digit_char (n mod 10)])"
  by pat_completeness auto
termination
  by (relation "measure id") auto

definition show_int :: "int \<Rightarrow> string" where
  "show_int i = (if i < 0 then CHR ''-'' # show_nat (nat (- i)) else show_nat (nat i))"

fun join :: "string \<Rightarrow> string list \<Rightarrow> string" where
  "join sep [] = []"
| "join sep [x] = x"
| "join sep (x # y # ys) = x @ sep @ join sep (y # ys)"

text \<open>\<^verbatim>\<open>repr\<close> of a string: single quotes unless the string has a single quote and no double
  quote; the quote and the backslash are escaped, the characters that are not printable
  (below 0x20, 0x7F to 0xA0, 0xAD) are written \<^verbatim>\<open>\t \n \r \xNN\<close>.\<close>

definition repr_char :: "char \<Rightarrow> char \<Rightarrow> string" where
  "repr_char q c =
     (if c = q \<or> c = CHR 0x5C then [CHR 0x5C, c]
      else if c = CHR 0x09 then [CHR 0x5C, CHR ''t'']
      else if c = CHR 0x0A then [CHR 0x5C, CHR ''n'']
      else if c = CHR 0x0D then [CHR 0x5C, CHR ''r'']
      else if (of_char c :: nat) < 32 \<or> (127 \<le> (of_char c :: nat) \<and> (of_char c :: nat) \<le> 160)
              \<or> c = CHR 0xAD
        then [CHR 0x5C, CHR ''x'', digit_char (of_char c div 16), digit_char (of_char c mod 16)]
      else [c])"

definition repr_str :: "string \<Rightarrow> string" where
  "repr_str s =
     (let q = (if CHR 0x27 \<in> set s \<and> CHR 0x22 \<notin> set s then CHR 0x22 else CHR 0x27)
      in [q] @ concat (map (repr_char q) s) @ [q])"

fun py_repr :: "pyval \<Rightarrow> string"
  and py_repr_list :: "pyval list \<Rightarrow> string list"
  and py_repr_items :: "(string \<times> pyval) list \<Rightarrow> string list" where
  "py_repr PNone = ''None''"
| "py_repr (PBool b) = (if b then ''True'' else ''False'')"
| "py_repr (PInt i) = show_int i"
| "py_repr (PStr s) = repr_str s"
| "py_repr (PList xs) = ''['' @ join '', '' (py_repr_list xs) @ '']''"
| "py_repr (PDict d) = ''{'' @ join '', '' (py_repr_items d) @ ''}''"
| "py_repr_list [] = []"
| "py_repr_list (x # xs) = py_repr x # py_repr_list xs"
| "py_repr_items [] = []"
| "py_repr_items ((k, v) # d) = (repr_str k @ '': '' @ py_repr v) # py_repr_items d"

text \<open>What \<^verbatim>\<open>"{}".format(v)\<close> writes for \<open>v\<close>: \<^verbatim>\<open>str(v)\<close>.\<close>

fun py_str :: "pyval \<Rightarrow> string" where
  "py_str (PStr s) = s"
| "py_str v = py_repr v"

text \<open>\<^verbatim>\<open>str.lower\<close> on ASCII text.\<close>

definition lower_char :: "char \<Rightarrow> char" where
  "lower_char c =
     (case map_of (zip ''ABCDEFGHIJKLMNOPQRSTUVWXYZ'' ''abcdefghijklmnopqrstuvwxyz'') c of
        None \<Rightarrow> c | Some l \<Rightarrow> l)"

definition lower :: "string \<Rightarrow> string" where
  "lower s = map lower_char s"

subsection \<open>Configuration, libraries and program state\<close>

text \<open>The contents of \<^verbatim>\<open>config.json\<close>, as the header of the script documents it.\<close>

record config =
  geoserver_host :: string
  geoserver_prefix :: string
  geoserver_auth :: string
  workspaces :: "string list"
  name_title_map :: "string \<rightharpoonup> string"

record http_request =
  req_method :: string
  req_url :: string
  req_headers :: "(string \<times> string) list"
  req_params :: "(string \<times> string) list option"
  req_data :: "string option"

record http_response =
  status_code :: int
  resp_text :: string

text \<open>The libraries: \<^verbatim>\<open>requests.request\<close> answers a request in a state of the remote
  world, with a response or an exception; \<^verbatim>\<open>json.loads\<close> gives the parsed value or
  the exception it raises (\<^verbatim>\<open>JSONDecodeError\<close> or another one); \<^verbatim>\<open>json.dumps\<close>
  serialises a value.\<close>

record 'w lib =
  http :: "http_request \<Rightarrow> 'w \<Rightarrow> (py_error + http_response) \<times> 'w"
  json_loads :: "string \<Rightarrow> py_error + pyval"
  json_dumps :: "pyval \<Rightarrow> string"

record 'w pstate =
  world :: 'w
  sent :: "http_request list"
  stdout :: string
  heap :: "dict list"

text \<open>The module-level dict \<^verbatim>\<open>layer_template\<close> is the first object the module creates.\<close>

definition layer_template :: nat where
  "layer_template = 0"

definition layer_template_value :: dict where
  "layer_template_value =
     [(''title'', PStr ''{}''), (''nativeName'', PStr ''{}''), (''name'', PStr ''{}''),
      (''enabled'', PBool True)]"

definition module_init :: "'w \<Rightarrow> 'w pstate" where
  "module_init w = \<lparr>world = w, sent = [], stdout = [], heap = [layer_template_value]\<rparr>"

text \<open>\<^verbatim>\<open>copy.deepcopy\<close> of a dict object whose values are immutable: a new object with
  the same items. \<^verbatim>\<open>obj[k] = v\<close> writes into the object at an address.\<close>

definition deepcopy :: "nat \<Rightarrow> 'w pstate \<Rightarrow> nat \<times> 'w pstate" where
  "deepcopy a st = (length (heap st), st\<lparr>heap := heap st @ [heap st ! a]\<rparr>)"

definition setitem :: "nat \<Rightarrow> string \<Rightarrow> pyval \<Rightarrow> 'w pstate \<Rightarrow> 'w pstate" where
  "setitem a k v st = st\<lparr>heap := (heap st)[a := dict_set (heap st ! a) k v]\<rparr>"

definition print :: "string \<Rightarrow> 'w pstate \<Rightarrow> 'w pstate" where
  "print s st = st\<lparr>stdout := stdout st @ s @ [CHR 0x0A]\<rparr>"

definition print_end :: "string \<Rightarrow> string \<Rightarrow> 'w pstate \<Rightarrow> 'w pstate" where
  "print_end s e st = st\<lparr>stdout := stdout st @ s @ e\<rparr>"

definition requests_request ::
  "'w lib \<Rightarrow> http_request \<Rightarrow> 'w pstate \<Rightarrow> (py_error + http_response) \<times> 'w pstate" where
  "requests_request l req st =
     (case http l req (world st) of
        (r, w') \<Rightarrow> (r, st\<lparr>world := w', sent := sent st @ [req]\<rparr>))"

subsection \<open>The functions of the script\<close>

definition make_layer :: "'w lib \<Rightarrow> pyval \<Rightarrow> pyval \<Rightarrow> pyval \<Rightarrow> 'w pstate \<Rightarrow> string \<times> 'w pstate" where
  "make_layer l name title nativeName st =
     (case deepcopy layer_template st of
        (layer, st1) \<Rightarrow>
          let nativeName' = (if \<not> truthy nativeName then name else nativeName);
              st2 = setitem layer ''nativeName'' nativeName' st1;
              st3 = setitem layer ''name'' name st2;
              st4 = setitem layer ''title'' title st3
          in (json_dumps l (PDict [(''featureType'', PDict (heap st4 ! layer))]), st4))"

datatype api_result = Parsed pyval | Response http_response

text \<open>In the GET branch the \<^verbatim>\<open>try\<close> block holds the request and \<^verbatim>\<open>json.loads\<close>; its
  handler catches \<^verbatim>\<open>JSONDecodeError\<close> only and formats \<^verbatim>\<open>response\<close>, a name that is
  unbound when it was the request that raised.\<close>

definition api_request ::
  "config \<Rightarrow> 'w lib \<Rightarrow> string \<Rightarrow> string \<Rightarrow> (string \<times> string) list option \<Rightarrow> string option
     \<Rightarrow> 'w pstate \<Rightarrow> (py_error + api_result) \<times> 'w pstate" where
  "api_request cfg l path rtype params data st =
     (let url = ''https://'' @ geoserver_host cfg @ geoserver_prefix cfg @ path;
          headers = [(''Accept'', ''application/json''),
                     (''Content-Type'', ''application/json''),
                     (''Authorization'', geoserver_auth cfg)]
      in if lower rtype = ''get'' then
           (case requests_request l
                   \<lparr>req_method = ''GET'', req_url = url, req_headers = headers,
                    req_params = params, req_data = None\<rparr> st of
              (Inl e, st') \<Rightarrow>
                (if e = JSONDecodeError then (Inl UnboundLocalError, st') else (Inl e, st'))
            | (Inr response, st') \<Rightarrow>
                (case json_loads l (resp_text response) of
                   Inr parsed_response \<Rightarrow> (Inr (Parsed parsed_response), st')
                 | Inl e \<Rightarrow>
                     (if e = JSONDecodeError
                      then (Inl (Exception (''Response (code '' @ show_int (status_code response)
                                      @ '') was not JSON: '' @ resp_text response)), st')
                      else (Inl e, st'))))
         else if lower rtype = ''post'' then
           (case requests_request l
                   \<lparr>req_method = ''POST'', req_url = url, req_headers = headers,
                    req_params = None, req_data = data\<rparr> st of
              (Inl e, st') \<Rightarrow> (Inl e, st')
            | (Inr response, st') \<Rightarrow> (Inr (Response response), st'))
         else (Inl (ValueError ''Invalid request type''), st))"

definition publish_featuretype ::
  "config \<Rightarrow> 'w lib \<Rightarrow> string \<Rightarrow> pyval \<Rightarrow> string \<Rightarrow> 'w pstate
     \<Rightarrow> (py_error + api_result) \<times> 'w pstate" where
  "publish_featuretype cfg l workspace store definition_json st =
     (let path = ''/workspaces/'' @ workspace @ ''/datastores/'' @ py_str store @ ''/featuretypes''
      in api_request cfg l path ''post'' None (Some definition_json) st)"

text \<open>Subscripting what \<^verbatim>\<open>api_request\<close> returned: a Response object is not
  subscriptable.\<close>

fun result_getitem :: "api_result \<Rightarrow> string \<Rightarrow> py_error + pyval" where
  "result_getitem (Parsed v) k = getitem v k"
| "result_getitem (Response r) k = Inl TypeError"

definition get_stores_for_workspace ::
  "config \<Rightarrow> 'w lib \<Rightarrow> string \<Rightarrow> 'w pstate \<Rightarrow> (py_error + pyval) \<times> 'w pstate" where
  "get_stores_for_workspace cfg l workspace st =
     (let path = ''/workspaces/'' @ workspace @ ''/datastores''
      in case api_request cfg l path ''GET'' None None st of
           (Inl e, st') \<Rightarrow> (Inl e, st')
         | (Inr response, st') \<Rightarrow>
             (case result_getitem response ''dataStores'' of
                Inl e \<Rightarrow> (Inl e, st')
              | Inr ds \<Rightarrow> (getitem ds ''dataStore'', st')))"

definition get_unassigned_layers ::
  "config \<Rightarrow> 'w lib \<Rightarrow> string \<Rightarrow> pyval \<Rightarrow> 'w pstate \<Rightarrow> (py_error + pyval) \<times> 'w pstate" where
  "get_unassigned_layers cfg l workspace store st =
     (let path = ''/workspaces/'' @ workspace @ ''/datastores/'' @ py_str store @ ''/featuretypes'';
          params = [(''list'', ''available'')]
      in case api_request cfg l path ''GET'' (Some params) None st of
           (Inl e, st') \<Rightarrow> (Inl e, st')
         | (Inr response, st') \<Rightarrow>
             (case result_getitem response ''list'' of
                Inl e \<Rightarrow> (Inl e, st')
              | Inr lst \<Rightarrow>
                  (case contains lst ''string'' of
                     Inl e \<Rightarrow> (Inl e, st')
                   | Inr True \<Rightarrow> (getitem lst ''string'', st')
                   | Inr False \<Rightarrow> (Inr (PList []), st'))))"

text \<open>\<^verbatim>\<open>layername in config['name_title_map']\<close> hashes the name: a list or a dict is
  unhashable; a value that is not a string equals no key.\<close>

fun map_title :: "config \<Rightarrow> pyval \<Rightarrow> py_error + pyval" where
  "map_title cfg (PStr layername) =
     (case name_title_map cfg layername of
        Some title \<Rightarrow> Inr (PStr title)
      | None \<Rightarrow> Inr (PStr layername))"
| "map_title cfg (PList xs) = Inl TypeError"
| "map_title cfg (PDict d) = Inl TypeError"
| "map_title cfg layername = Inr layername"

text \<open>\<^verbatim>\<open>response.status_code\<close> on what \<^verbatim>\<open>publish_featuretype\<close> returned.\<close>

fun result_status_code :: "api_result \<Rightarrow> py_error + int" where
  "result_status_code (Response r) = Inr (status_code r)"
| "result_status_code (Parsed v) = Inl AttributeError"

subsection \<open>The module body\<close>

text \<open>The three nested loops, innermost first. Each returns \<open>None\<close> when it ran to its
  end and \<open>Some e\<close> when the exception \<open>e\<close> left it.\<close>

fun layer_loop ::
  "config \<Rightarrow> 'w lib \<Rightarrow> string \<Rightarrow> pyval \<Rightarrow> pyval list \<Rightarrow> 'w pstate
     \<Rightarrow> py_error option \<times> 'w pstate" where
  "layer_loop cfg l workspace store [] st = (None, st)"
| "layer_loop cfg l workspace store (layer # layers) st =
     (let st1 = print_end (py_str layer @ ''...'') '''' st in
      case getitem store ''name'' of
        Inl e \<Rightarrow> (Some e, st1)
      | Inr store_name \<Rightarrow>
          (case map_title cfg layer of
             Inl e \<Rightarrow> (Some e, st1)
           | Inr title \<Rightarrow>
               (case make_layer l layer title PNone st1 of
                  (definition_json, st2) \<Rightarrow>
                    (case publish_featuretype cfg l workspace store_name definition_json st2 of
                       (Inl e, st3) \<Rightarrow> (Some e, st3)
                     | (Inr response, st3) \<Rightarrow>
                         (case result_status_code response of
                            Inl e \<Rightarrow> (Some e, st3)
                          | Inr code \<Rightarrow>
                              layer_loop cfg l workspace store layers
                                (if code = 201 then print ''OK'' st3 else print ''FAIL'' st3))))))"

fun store_loop ::
  "config \<Rightarrow> 'w lib \<Rightarrow> string \<Rightarrow> pyval list \<Rightarrow> 'w pstate \<Rightarrow> py_error option \<times> 'w pstate" where
  "store_loop cfg l workspace [] st = (None, st)"
| "store_loop cfg l workspace (store # stores) st =
     (case getitem store ''name'' of
        Inl e \<Rightarrow> (Some e, st)
      | Inr store_name \<Rightarrow>
          (case get_unassigned_layers cfg l workspace store_name st of
             (Inl e, st1) \<Rightarrow> (Some e, st1)
           | (Inr unassigned_layers, st1) \<Rightarrow>
               (case py_len unassigned_layers of
                  Inl e \<Rightarrow> (Some e, st1)
                | Inr n \<Rightarrow>
                    (let st2 = print (''Store '' @ py_str store_name @ '' in '' @ workspace
                                      @ '' has '' @ show_int n @ '' unassigned layers'') st1;
                         st3 = (if truthy unassigned_layers
                                then print ''Publishing them all now...'' st2 else st2)
                     in case py_iter unassigned_layers of
                          Inl e \<Rightarrow> (Some e, st3)
                        | Inr layers \<Rightarrow>
                            (case layer_loop cfg l workspace store layers st3 of
                               (Some e, st4) \<Rightarrow> (Some e, st4)
                             | (None, st4) \<Rightarrow> store_loop cfg l workspace stores st4)))))"

fun workspace_loop ::
  "config \<Rightarrow> 'w lib \<Rightarrow> string list \<Rightarrow> 'w pstate \<Rightarrow> py_error option \<times> 'w pstate" where
  "workspace_loop cfg l [] st = (None, st)"
| "workspace_loop cfg l (workspace # rest) st =
     (case get_stores_for_workspace cfg l workspace st of
        (Inl e, st1) \<Rightarrow>
          workspace_loop cfg l rest (print (''No stores found for workspace '' @ workspace) st1)
      | (Inr stores, st1) \<Rightarrow>
          (case py_iter stores of
             Inl e \<Rightarrow> (Some e, st1)
           | Inr store_list \<Rightarrow>
               (case store_loop cfg l workspace store_list st1 of
                  (Some e, st2) \<Rightarrow> (Some e, st2)
                | (None, st2) \<Rightarrow> workspace_loop cfg l rest st2)))"

text \<open>The statements after \<^verbatim>\<open>config = load_config()\<close>.\<close>

definition main :: "config \<Rightarrow> 'w lib \<Rightarrow> 'w pstate \<Rightarrow> py_error option \<times> 'w pstate" where
  "main cfg l st =
     (let st1 = print (''Checking stores for workspaces: '' @ join '', '' (workspaces cfg)) st;
          st2 = print ''----------------------------------'' st1
      in workspace_loop cfg l (workspaces cfg) st2)"

subsection \<open>Notions used to state the properties\<close>

text \<open>The request \<^verbatim>\<open>api_request\<close> builds from the configuration: the URL
  \<^verbatim>\<open>https://{host}{prefix}{path}\<close> and the three fixed headers.\<close>

definition rest_request ::
  "config \<Rightarrow> string \<Rightarrow> string \<Rightarrow> (string \<times> string) list option \<Rightarrow> string option
     \<Rightarrow> http_request" where
  "rest_request cfg method path params data =
     \<lparr>req_method = method,
      req_url = ''https://'' @ geoserver_host cfg @ geoserver_prefix cfg @ path,
      req_headers = [(''Accept'', ''application/json''),
                     (''Content-Type'', ''application/json''),
                     (''Authorization'', geoserver_auth cfg)],
      req_params = params, req_data = data\<rparr>"

text \<open>The state after the library answered a request: the world moved on and the request
  is on the trace.\<close>

definition record_request :: "http_request \<Rightarrow> 'w \<Rightarrow> 'w pstate \<Rightarrow> 'w pstate" where
  "record_request req w' st = st\<lparr>world := w', sent := sent st @ [req]\<rparr>"

definition not_json_message :: "http_response \<Rightarrow> string" where
  "not_json_message response =
     ''Response (code '' @ show_int (status_code response) @ '') was not JSON: ''
       @ resp_text response"

text \<open>The value \<^verbatim>\<open>{"featureType": layer}\<close> for a layer dict with the four keys of the
  template, in the template's order.\<close>

definition feature_type :: "pyval \<Rightarrow> pyval \<Rightarrow> pyval \<Rightarrow> pyval" where
  "feature_type title nativeName name =
     PDict [(''featureType'',
             PDict [(''title'', title), (''nativeName'', nativeName), (''name'', name),
                    (''enabled'', PBool True)])]"

text \<open>The module-level template is allocated and holds the value the module gave it.\<close>

definition template_intact :: "'w pstate \<Rightarrow> bool" where
  "template_intact st =
     (layer_template < length (heap st) \<and> heap st ! layer_template = layer_template_value)"

text \<open>A request on the trace is good when, if it is a POST, its body is a serialised
  feature type with \<open>enabled\<close> true and \<open>nativeName\<close> equal to \<open>name\<close>.\<close>

definition good_request :: "'w lib \<Rightarrow> http_request \<Rightarrow> bool" where
  "good_request l req =
     (req_method req = ''POST'' \<longrightarrow>
        (\<exists>title name. req_data req = Some (json_dumps l (feature_type title name name))))"

definition run_inv :: "'w lib \<Rightarrow> 'w pstate \<Rightarrow> bool" where
  "run_inv l st = (template_intact st \<and> (\<forall>req \<in> set (sent st). good_request l req))"

subsection \<open>A concrete environment for examples\<close>

text \<open>\<^verbatim>\<open>json.dumps\<close> with its defaults: the separators \<^verbatim>\<open>", "\<close> and \<^verbatim>\<open>": "\<close>, and every
  character outside \<^verbatim>\<open>' '\<close> to \<^verbatim>\<open>'~'\<close> escaped (\<^verbatim>\<open>ensure_ascii\<close>).\<close>

definition json_escape_char :: "char \<Rightarrow> string" where
  "json_escape_char c =
     (if c = CHR 0x22 then [CHR 0x5C, CHR 0x22]
      else if c = CHR 0x5C then [CHR 0x5C, CHR 0x5C]
      else if c = CHR 0x0A then [CHR 0x5C, CHR ''n'']
      else if c = CHR 0x0D then [CHR 0x5C, CHR ''r'']
      else if c = CHR 0x09 then [CHR 0x5C, CHR ''t'']
      else if c = CHR 0x08 then [CHR 0x5C, CHR ''b'']
      else if c = CHR 0x0C then [CHR 0x5C, CHR ''f'']
      else if (of_char c :: nat) < 32 \<or> 127 \<le> (of_char c :: nat)
        then [CHR 0x5C, CHR ''u'', CHR ''0'', CHR ''0'',
              digit_char (of_char c div 16), digit_char (of_char c mod 16)]
      else [c])"

definition json_string :: "string \<Rightarrow> string" where
  "json_string s = [CHR 0x22] @ concat (map json_escape_char s) @ [CHR 0x22]"

fun json_dumps_ascii :: "pyval \<Rightarrow> string"
  and json_dumps_list :: "pyval list \<Rightarrow> string list"
  and json_dumps_items :: "(string \<times> pyval) list \<Rightarrow> string list" where
  "json_dumps_ascii PNone = ''null''"
| "json_dumps_ascii (PBool b) = (if b then ''true'' else ''false'')"
| "json_dumps_ascii (PInt i) = show_int i"
| "json_dumps_ascii (PStr s) = json_string s"
| "json_dumps_ascii (PList xs) = ''['' @ join '', '' (json_dumps_list xs) @ '']''"
| "json_dumps_ascii (PDict d) = ''{'' @ join '', '' (json_dumps_items d) @ ''}''"
| "json_dumps_list [] = []"
| "json_dumps_list (x # xs) = json_dumps_ascii x # json_dumps_list xs"
| "json_dumps_items [] = []"
| "json_dumps_items ((k, v) # d) =
     (json_string k @ '': '' @ json_dumps_ascii v) # json_dumps_items d"

text \<open>A server that answers the n-th request with the n-th entry of a script, whatever the
  request, and refuses the connection once the script is used up; and a \<^verbatim>\<open>json.loads\<close>
  that knows the listed texts and raises \<^verbatim>\<open>JSONDecodeError\<close> on every other text.\<close>

definition scripted_http ::
  "(py_error + http_response) list \<Rightarrow> http_request \<Rightarrow> nat
     \<Rightarrow> (py_error + http_response) \<times> nat" where
  "scripted_http answers req n =
     (if n < length answers then answers ! n else Inl (RequestsError ''connection refused''),
      Suc n)"

definition listed_loads :: "(string \<times> pyval) list \<Rightarrow> string \<Rightarrow> py_error + pyval" where
  "listed_loads parses t =
     (case map_of parses t of None \<Rightarrow> Inl JSONDecodeError | Some v \<Rightarrow> Inr v)"

definition scripted_lib ::
  "(py_error + http_response) list \<Rightarrow> (string \<times> pyval) list \<Rightarrow> nat lib" where
  "scripted_lib answers parses =
     \<lparr>http = scripted_http answers, json_loads = listed_loads parses,
      json_dumps = json_dumps_ascii\<rparr>"

definition example_config :: config where
  "example_config =
     \<lparr>geoserver_host = ''geoserver.hel.fi'', geoserver_prefix = ''/geoserver/rest'',
      geoserver_auth = ''Basic eHg6eXk='', workspaces = [''ltj-dev''],
      name_title_map = [''arvo_kaapakohteet'' \<mapsto> ''Valuable conks'']\<rparr>"

definition stores_text :: string where
  \<open>stores_text = ''{"dataStores": {"dataStore": [{"name": "pg_main"}]}}''\<close>

definition stores_value :: pyval where
  "stores_value =
     PDict [(''dataStores'', PDict [(''dataStore'', PList [PDict [(''name'', PStr ''pg_main'')]])])]"

definition layers_text :: string where
  \<open>layers_text = ''{"list": {"string": ["arvo_kaapakohteet", "unmapped_layer"]}}''\<close>

definition layers_value :: pyval where
  "layers_value =
     PDict [(''list'', PDict [(''string'',
        PList [PStr ''arvo_kaapakohteet'', PStr ''unmapped_layer''])])]"

definition single_text :: string where
  \<open>single_text = ''{"list": {"string": "tie"}}''\<close>

definition single_value :: pyval where
  "single_value = PDict [(''list'', PDict [(''string'', PStr ''tie'')])]"

definition example_parses :: "(string \<times> pyval) list" where
  "example_parses =
     [(stores_text, stores_value), (layers_text, layers_value), (single_text, single_value)]"

definition ok200 :: "string \<Rightarrow> py_error + http_response" where
  "ok200 body = Inr \<lparr>status_code = 200, resp_text = body\<rparr>"

definition not_found_response :: http_response where
  "not_found_response = \<lparr>status_code = 404, resp_text = ''<html>Not Found</html>''\<rparr>"

text \<open>The scenario: one workspace, one datastore, two unassigned layers; the first
  publish is answered 201, the second 500.\<close>

definition scenario_lib :: "nat lib" where
  "scenario_lib =
     scripted_lib
       [ok200 stores_text, ok200 layers_text,
        Inr \<lparr>status_code = 201, resp_text = ''''\<rparr>,
        Inr \<lparr>status_code = 500, resp_text = ''error''\<rparr>]
       example_parses"

definition pg_main_store :: pyval where
  "pg_main_store = PDict [(''name'', PStr ''pg_main'')]"

definition created :: "py_error + http_response" where
  "created = Inr \<lparr>status_code = 201, resp_text = ''''\<rparr>"

definition server_error :: "py_error + http_response" where
  "server_error = Inr \<lparr>status_code = 500, resp_text = ''error''\<rparr>"



text \<open>The server answers the listing of available feature types with a single string,
  and the three publishes that follow with 201.\<close>

definition letters_lib :: "nat lib" where
  "letters_lib =
     scripted_lib
       [ok200 stores_text, ok200 single_text, created, created, created]
       example_parses"



text \<open>A body of 1000 opening brackets is not JSON, and \<^verbatim>\<open>json.loads\<close> of CPython does not
  get as far as saying so: the nesting exceeds the recursion limit of the interpreter and
  the call raises \<^verbatim>\<open>RecursionError\<close>.\<close>

definition deep_text :: string where
  "deep_text = replicate 1000 (CHR ''['')"

definition deep_loads :: "string \<Rightarrow> py_error + pyval" where
  "deep_loads t = (if t = deep_text then Inl RecursionError else listed_loads example_parses t)"

definition deep_lib :: "nat lib" where
  "deep_lib =
     \<lparr>http = scripted_http [ok200 deep_text], json_loads = deep_loads,
      json_dumps = json_dumps_ascii\<rparr>"

text \<open>The text that a sequence of \<^verbatim>\<open>print\<close> calls writes.\<close>

fun unlines :: "string list \<Rightarrow> string" where
  "unlines [] = []"
| "unlines (line # rest) = line @ [CHR 0x0A] @ unlines rest"







section \<open>Basic facts\<close>

lemma lower_GET: "lower ''GET'' = ''get''"
  by (simp add: lower_def lower_char_def)

lemma lower_post: "lower ''post'' = ''post''"
  by (simp add: lower_def lower_char_def)

lemma is_prefix_append: "is_prefix p (p @ s)"
  by (induction p) auto

lemma str_contains_prefix: "str_contains (p @ b) p"
  by (cases "p @ b") (use is_prefix_append [of p b] in auto)

lemma str_contains_append: "str_contains (a @ p @ b) p"
  by (induction a) (auto simp: str_contains_prefix)

lemma str_contains_suffix: "str_contains (a @ p) p"
  using str_contains_append [of a p "[]"] by simp

subsection \<open>What one call of \<open>api_request\<close> does\<close>

lemma api_request_get_unfold:
  "lower rtype = ''get'' \<Longrightarrow>
   api_request cfg l path rtype params data st =
     (case http l (rest_request cfg ''GET'' path params None) (world st) of
        (Inl e, w') \<Rightarrow>
          (Inl (if e = JSONDecodeError then UnboundLocalError else e),
           record_request (rest_request cfg ''GET'' path params None) w' st)
      | (Inr response, w') \<Rightarrow>
          (case json_loads l (resp_text response) of
             Inr parsed \<Rightarrow>
               (Inr (Parsed parsed), record_request (rest_request cfg ''GET'' path params None) w' st)
           | Inl e \<Rightarrow>
               (Inl (if e = JSONDecodeError then Exception (not_json_message response) else e),
                record_request (rest_request cfg ''GET'' path params None) w' st)))"
  by (simp add: api_request_def requests_request_def rest_request_def record_request_def
        not_json_message_def Let_def split: prod.splits sum.splits)

lemma api_request_post_unfold:
  "api_request cfg l path ''post'' params data st =
     (case http l (rest_request cfg ''POST'' path None data) (world st) of
        (Inl e, w') \<Rightarrow> (Inl e, record_request (rest_request cfg ''POST'' path None data) w' st)
      | (Inr response, w') \<Rightarrow>
          (Inr (Response response), record_request (rest_request cfg ''POST'' path None data) w' st))"
  by (simp add: api_request_def requests_request_def rest_request_def record_request_def
        lower_post Let_def split: prod.splits sum.splits)

subsection \<open>What \<open>make_layer\<close> does to the heap\<close>

lemma make_layer_unfold:
  "make_layer l name title nativeName st =
     (let d = dict_set (dict_set (dict_set (heap st ! layer_template) ''nativeName''
                 (if \<not> truthy nativeName then name else nativeName)) ''name'' name) ''title'' title
      in (json_dumps l (PDict [(''featureType'', PDict d)]), st\<lparr>heap := heap st @ [d]\<rparr>))"
  by (simp add: make_layer_def deepcopy_def setitem_def Let_def)

lemma make_layer_intact:
  "template_intact st \<Longrightarrow>
   make_layer l name title nativeName st =
     (json_dumps l (feature_type title (if \<not> truthy nativeName then name else nativeName) name),
      st\<lparr>heap := heap st @
         [[(''title'', title), (''nativeName'', if \<not> truthy nativeName then name else nativeName),
           (''name'', name), (''enabled'', PBool True)]]\<rparr>)"
  by (simp add: make_layer_unfold template_intact_def layer_template_value_def feature_type_def
        Let_def)

lemma make_layer_keeps_objects:
  "a < length (heap st) \<Longrightarrow> heap (snd (make_layer l name title nativeName st)) ! a = heap st ! a"
  by (simp add: make_layer_unfold Let_def nth_append)

lemma make_layer_preserves_intact:
  "template_intact st \<Longrightarrow> template_intact (snd (make_layer l name title nativeName st))"
  by (simp add: make_layer_unfold Let_def nth_append template_intact_def)

lemma template_intact_init: "template_intact (module_init w)"
  by (simp add: template_intact_def module_init_def layer_template_def)

subsection \<open>What \<open>publish_featuretype\<close> does\<close>

lemma publish_featuretype_unfold:
  "publish_featuretype cfg l workspace store body st =
     (case http l (rest_request cfg ''POST''
                     (''/workspaces/'' @ workspace @ ''/datastores/'' @ py_str store
                        @ ''/featuretypes'') None (Some body)) (world st) of
        (Inl e, w') \<Rightarrow>
          (Inl e, record_request (rest_request cfg ''POST''
                     (''/workspaces/'' @ workspace @ ''/datastores/'' @ py_str store
                        @ ''/featuretypes'') None (Some body)) w' st)
      | (Inr response, w') \<Rightarrow>
          (Inr (Response response), record_request (rest_request cfg ''POST''
                     (''/workspaces/'' @ workspace @ ''/datastores/'' @ py_str store
                        @ ''/featuretypes'') None (Some body)) w' st))"
  unfolding publish_featuretype_def Let_def by (rule api_request_post_unfold)

subsection \<open>An invariant of the run\<close>

lemma requests_request_effect:
  "requests_request l req st = (r, st') \<Longrightarrow>
   heap st' = heap st \<and> stdout st' = stdout st \<and> sent st' = sent st @ [req]"
  by (auto simp: requests_request_def split: prod.splits)

lemma api_request_get_effect:
  assumes "api_request cfg l path ''GET'' params data st = (r, st')"
  shows "heap st' = heap st \<and> stdout st' = stdout st \<and>
         (\<exists>req. req_method req = ''GET'' \<and> sent st' = sent st @ [req])"
  using assms
  by (auto simp: api_request_def lower_GET Let_def
           split: prod.splits sum.splits if_splits dest!: requests_request_effect)

lemma api_request_post_effect:
  assumes "api_request cfg l path ''post'' params data st = (r, st')"
  shows "heap st' = heap st \<and> stdout st' = stdout st \<and>
         sent st' = sent st @ [rest_request cfg ''POST'' path None data]"
  using assms
  by (auto simp: api_request_post_unfold record_request_def split: prod.splits sum.splits)

lemma run_inv_print: "run_inv l (print s st) = run_inv l st"
  by (simp add: run_inv_def print_def template_intact_def)

lemma run_inv_print_end: "run_inv l (print_end s e st) = run_inv l st"
  by (simp add: run_inv_def print_end_def template_intact_def)

lemma run_inv_get:
  assumes "run_inv l st" and "api_request cfg l path ''GET'' params data st = (r, st')"
  shows "run_inv l st'"
  using assms(1) api_request_get_effect [OF assms(2)]
  by (auto simp: run_inv_def template_intact_def good_request_def)

lemma run_inv_post:
  assumes "run_inv l st"
    and "api_request cfg l path ''post'' params
           (Some (json_dumps l (feature_type title name name))) st = (r, st')"
  shows "run_inv l st'"
  using assms(1) api_request_post_effect [OF assms(2)]
  by (auto simp: run_inv_def template_intact_def good_request_def rest_request_def)

lemma run_inv_make_layer:
  assumes "run_inv l st" and "make_layer l name title PNone st = (body, st')"
  shows "run_inv l st' \<and> body = json_dumps l (feature_type title name name)"
  using assms make_layer_intact [of st l name title PNone]
  by (auto simp: run_inv_def template_intact_def nth_append)

lemma run_inv_get_stores:
  "run_inv l st \<Longrightarrow> get_stores_for_workspace cfg l workspace st = (r, st') \<Longrightarrow> run_inv l st'"
  by (auto simp: get_stores_for_workspace_def Let_def split: prod.splits sum.splits
           dest: run_inv_get)

lemma run_inv_get_unassigned:
  "run_inv l st \<Longrightarrow> get_unassigned_layers cfg l workspace store st = (r, st') \<Longrightarrow> run_inv l st'"
  by (auto simp: get_unassigned_layers_def Let_def split: prod.splits sum.splits bool.splits
           dest: run_inv_get)

lemma run_inv_publish:
  "run_inv l st \<Longrightarrow>
   publish_featuretype cfg l workspace store (json_dumps l (feature_type title name name)) st
     = (r, st') \<Longrightarrow> run_inv l st'"
  by (auto simp: publish_featuretype_def Let_def dest: run_inv_post)

lemma run_inv_layer_loop:
  "run_inv l st \<Longrightarrow> layer_loop cfg l workspace store layers st = (r, st') \<Longrightarrow> run_inv l st'"
proof (induction layers arbitrary: st)
  case Nil
  then show ?case by simp
next
  case (Cons layer layers)
  let ?st1 = "print_end (py_str layer @ ''...'') '''' st"
  have inv1: "run_inv l ?st1" using Cons.prems(1) by (simp add: run_inv_print_end)
  show ?case
  proof (cases "getitem store ''name''")
    case (Inl e)
    with Cons.prems(2) inv1 show ?thesis by (auto simp: Let_def)
  next
    case store_name: (Inr store_name)
    show ?thesis
    proof (cases "map_title cfg layer")
      case (Inl e)
      with Cons.prems(2) inv1 store_name show ?thesis by (auto simp: Let_def)
    next
      case title: (Inr title)
      obtain body st2 where ml: "make_layer l layer title PNone ?st1 = (body, st2)"
        by (cases "make_layer l layer title PNone ?st1")
      from run_inv_make_layer [OF inv1 ml]
      have inv2: "run_inv l st2" and body: "body = json_dumps l (feature_type title layer layer)"
        by simp_all
      obtain pr st3 where pub: "publish_featuretype cfg l workspace store_name body st2 = (pr, st3)"
        by (cases "publish_featuretype cfg l workspace store_name body st2")
      have inv3: "run_inv l st3" using run_inv_publish inv2 pub body by blast
      show ?thesis
      proof (cases pr)
        case (Inl e)
        with Cons.prems(2) store_name title ml pub inv3 show ?thesis by (auto simp: Let_def)
      next
        case response: (Inr response)
        show ?thesis
        proof (cases "result_status_code response")
          case (Inl e)
          with Cons.prems(2) store_name title ml pub inv3 response show ?thesis
            by (auto simp: Let_def)
        next
          case (Inr code)
          let ?st4 = "if code = 201 then print ''OK'' st3 else print ''FAIL'' st3"
          have "run_inv l ?st4" using inv3 by (simp add: run_inv_print)
          moreover have "layer_loop cfg l workspace store layers ?st4 = (r, st')"
            using Cons.prems(2) store_name title ml pub response Inr by (simp add: Let_def)
          ultimately show ?thesis using Cons.IH by blast
        qed
      qed
    qed
  qed
qed

lemma run_inv_store_loop:
  "run_inv l st \<Longrightarrow> store_loop cfg l workspace stores st = (r, st') \<Longrightarrow> run_inv l st'"
proof (induction stores arbitrary: st)
  case Nil
  then show ?case by simp
next
  case (Cons store stores)
  show ?case
  proof (cases "getitem store ''name''")
    case (Inl e)
    with Cons.prems show ?thesis by auto
  next
    case store_name: (Inr store_name)
    obtain ur st1 where gu: "get_unassigned_layers cfg l workspace store_name st = (ur, st1)"
      by (cases "get_unassigned_layers cfg l workspace store_name st")
    have inv1: "run_inv l st1" using run_inv_get_unassigned Cons.prems(1) gu by blast
    show ?thesis
    proof (cases ur)
      case (Inl e)
      with Cons.prems(2) store_name gu inv1 show ?thesis by auto
    next
      case ul: (Inr unassigned_layers)
      show ?thesis
      proof (cases "py_len unassigned_layers")
        case (Inl e)
        with Cons.prems(2) store_name gu inv1 ul show ?thesis by auto
      next
        case n: (Inr n)
        let ?st2 = "print (''Store '' @ py_str store_name @ '' in '' @ workspace
                       @ '' has '' @ show_int n @ '' unassigned layers'') st1"
        let ?st3 = "if truthy unassigned_layers
                    then print ''Publishing them all now...'' ?st2 else ?st2"
        have inv3: "run_inv l ?st3" using inv1 by (simp add: run_inv_print)
        show ?thesis
        proof (cases "py_iter unassigned_layers")
          case (Inl e)
          have "store_loop cfg l workspace (store # stores) st = (Some e, ?st3)"
            by (simp only: store_loop.simps Let_def store_name gu ul n Inl sum.case prod.case)
          with Cons.prems(2) inv3 show ?thesis by simp
        next
          case layers: (Inr layers)
          obtain lr st4 where ll: "layer_loop cfg l workspace store layers ?st3 = (lr, st4)"
            by (cases "layer_loop cfg l workspace store layers ?st3")
          have inv4: "run_inv l st4" using run_inv_layer_loop inv3 ll by blast
          have step: "store_loop cfg l workspace (store # stores) st =
                (case lr of None \<Rightarrow> store_loop cfg l workspace stores st4
                          | Some e \<Rightarrow> (Some e, st4))"
            by (cases lr)
               (simp_all only: store_loop.simps Let_def store_name gu ul n layers ll
                  sum.case prod.case option.case)
          show ?thesis
          proof (cases lr)
            case None
            then have "store_loop cfg l workspace stores st4 = (r, st')"
              using Cons.prems(2) step by simp
            then show ?thesis using Cons.IH inv4 by blast
          next
            case (Some e)
            then show ?thesis
              using Cons.prems(2) step inv4 by simp
          qed
        qed
      qed
    qed
  qed
qed

lemma run_inv_workspace_loop:
  "run_inv l st \<Longrightarrow> workspace_loop cfg l ws st = (r, st') \<Longrightarrow> run_inv l st'"
proof (induction ws arbitrary: st)
  case Nil
  then show ?case by simp
next
  case (Cons workspace rest)
  obtain sr st1 where gs: "get_stores_for_workspace cfg l workspace st = (sr, st1)"
    by (cases "get_stores_for_workspace cfg l workspace st")
  have inv1: "run_inv l st1" using run_inv_get_stores Cons.prems(1) gs by blast
  show ?case
  proof (cases sr)
    case (Inl e)
    let ?st2 = "print (''No stores found for workspace '' @ workspace) st1"
    have "run_inv l ?st2" using inv1 by (simp add: run_inv_print)
    moreover have "workspace_loop cfg l rest ?st2 = (r, st')"
      using Cons.prems(2) gs Inl by simp
    ultimately show ?thesis using Cons.IH by blast
  next
    case stores: (Inr stores)
    show ?thesis
    proof (cases "py_iter stores")
      case (Inl e)
      with Cons.prems(2) gs stores inv1 show ?thesis by auto
    next
      case sl: (Inr store_list)
      obtain lr st2 where loop: "store_loop cfg l workspace store_list st1 = (lr, st2)"
        by (cases "store_loop cfg l workspace store_list st1")
      have inv2: "run_inv l st2" using run_inv_store_loop inv1 loop by blast
      show ?thesis
      proof (cases lr)
        case None
        then have "workspace_loop cfg l rest st2 = (r, st')"
          using Cons.prems(2) gs stores sl loop by simp
        then show ?thesis using Cons.IH inv2 by blast
      next
        case (Some e)
        then show ?thesis using Cons.prems(2) gs stores sl loop inv2 by auto
      qed
    qed
  qed
qed

lemma run_inv_main:
  "run_inv l st \<Longrightarrow> main cfg l st = (r, st') \<Longrightarrow> run_inv l st'"
  unfolding main_def Let_def
  using run_inv_workspace_loop run_inv_print by blast

lemma run_inv_init: "run_inv l (module_init w)"
  by (simp add: run_inv_def template_intact_init) (simp add: module_init_def)

subsection \<open>One iteration of each loop\<close>

lemma get_dict_in_keys: "k \<in> set (map fst d) \<Longrightarrow> \<exists>v. dict_get d k = Some v"
  by (induction d) (auto simp: dict_get_def)

lemma get_dict_not_in_keys: "k \<notin> set (map fst d) \<Longrightarrow> dict_get d k = None"
  by (induction d) (auto simp: dict_get_def)

lemma get_unassigned_layers_unfold:
  "get_unassigned_layers cfg l workspace store st =
     (case api_request cfg l
             (''/workspaces/'' @ workspace @ ''/datastores/'' @ py_str store @ ''/featuretypes'')
             ''GET'' (Some [(''list'', ''available'')]) None st of
        (Inl e, st') \<Rightarrow> (Inl e, st')
      | (Inr response, st') \<Rightarrow>
          (case result_getitem response ''list'' of
             Inl e \<Rightarrow> (Inl e, st')
           | Inr lst \<Rightarrow>
               (case contains lst ''string'' of
                  Inl e \<Rightarrow> (Inl e, st')
                | Inr True \<Rightarrow> (getitem lst ''string'', st')
                | Inr False \<Rightarrow> (Inr (PList []), st'))))"
  by (simp only: get_unassigned_layers_def Let_def)

lemma layer_loop_step:
  assumes "getitem store ''name'' = Inr store_name"
    and "map_title cfg layer = Inr title"
    and "make_layer l layer title PNone (print_end (py_str layer @ ''...'') '''' st) = (body, st2)"
    and "publish_featuretype cfg l workspace store_name body st2 = (pr, st3)"
  shows "layer_loop cfg l workspace store (layer # layers) st =
           (case pr of
              Inl e \<Rightarrow> (Some e, st3)
            | Inr response \<Rightarrow>
                (case result_status_code response of
                   Inl e \<Rightarrow> (Some e, st3)
                 | Inr code \<Rightarrow>
                     layer_loop cfg l workspace store layers
                       (if code = 201 then print ''OK'' st3 else print ''FAIL'' st3)))"
  by (simp only: layer_loop.simps Let_def assms sum.case prod.case)

lemma store_loop_step:
  assumes "getitem store ''name'' = Inr store_name"
    and "get_unassigned_layers cfg l workspace store_name st = (Inr unassigned_layers, st1)"
    and "py_len unassigned_layers = Inr n"
    and "py_iter unassigned_layers = Inr layers"
    and "layer_loop cfg l workspace store layers
           (if truthy unassigned_layers
            then print ''Publishing them all now...''
                   (print (''Store '' @ py_str store_name @ '' in '' @ workspace
                            @ '' has '' @ show_int n @ '' unassigned layers'') st1)
            else print (''Store '' @ py_str store_name @ '' in '' @ workspace
                            @ '' has '' @ show_int n @ '' unassigned layers'') st1) = (lr, st4)"
  shows "store_loop cfg l workspace (store # stores) st =
           (case lr of None \<Rightarrow> store_loop cfg l workspace stores st4
                     | Some e \<Rightarrow> (Some e, st4))"
  by (cases lr)
     (simp_all only: store_loop.simps Let_def assms sum.case prod.case option.case)


lemma make_layer_stdout: "stdout (snd (make_layer l name title nativeName st)) = stdout st"
  by (simp add: make_layer_unfold Let_def)

lemma getitem_contains: "getitem x k = Inr v \<Longrightarrow> contains x k = Inr True"
proof (cases x)
  case (PDict d)
  assume "getitem x k = Inr v"
  with PDict have "dict_get d k \<noteq> None" by (auto split: option.splits)
  then have "k \<in> set (map fst d)"
    by (cases "k \<in> set (map fst d)") (simp_all add: get_dict_not_in_keys)
  with PDict show ?thesis by simp
qed auto

lemmas run_defs =
  main_def get_stores_for_workspace_def get_unassigned_layers_def publish_featuretype_def
  api_request_def requests_request_def make_layer_def deepcopy_def setitem_def
  print_def print_end_def module_init_def layer_template_def layer_template_value_def
  dict_get_def lower_def lower_char_def show_int_def digit_char_def

lemmas env_defs =
  scenario_lib_def scripted_lib_def scripted_http_def listed_loads_def example_config_def example_parses_def
  stores_text_def stores_value_def layers_text_def layers_value_def single_text_def
  single_value_def ok200_def json_string_def json_escape_char_def

subsection \<open>What \<open>get_unassigned_layers\<close> returns for the three shapes\<close>

lemma get_unassigned_layers_present:
  assumes "http l (rest_request cfg ''GET''
                     (''/workspaces/'' @ workspace @ ''/datastores/'' @ py_str store
                        @ ''/featuretypes'') (Some [(''list'', ''available'')]) None) (world st)
             = (Inr response, w')"
    and "json_loads l (resp_text response) = Inr parsed"
    and "getitem parsed ''list'' = Inr lst"
    and "getitem lst ''string'' = Inr v"
  shows "fst (get_unassigned_layers cfg l workspace store st) = Inr v"
  using assms getitem_contains [OF assms(4)]
  by (simp add: get_unassigned_layers_unfold api_request_get_unfold lower_GET)

lemma get_unassigned_layers_absent:
  assumes "http l (rest_request cfg ''GET''
                     (''/workspaces/'' @ workspace @ ''/datastores/'' @ py_str store
                        @ ''/featuretypes'') (Some [(''list'', ''available'')]) None) (world st)
             = (Inr response, w')"
    and "json_loads l (resp_text response) = Inr parsed"
    and "getitem parsed ''list'' = Inr lst"
    and "contains lst ''string'' = Inr False"
  shows "fst (get_unassigned_layers cfg l workspace store st) = Inr (PList [])"
  using assms
  by (simp add: get_unassigned_layers_unfold api_request_get_unfold lower_GET)

section \<open>The properties\<close>

text \<open>
  C1. What the script does when the server sends the single string
  \<^verbatim>\<open>{"list": {"string": "tie"}}\<close>: \<open>get_unassigned_layers\<close> returns the string itself,
  not the one-element list that holds it; and the module body, which counts and iterates
  what it was given, prints that the store has 3 unassigned layers and publishes 3
  layers, one for each letter of the name.
\<close>

theorem single_string_published_by_letter:
  \<open>fst (get_unassigned_layers example_config (scripted_lib [ok200 single_text] example_parses)
          ''ltj-dev'' (PStr ''pg_main'') (module_init 0))
     = Inr (PStr ''tie'') \<and>
   fst (get_unassigned_layers example_config (scripted_lib [ok200 single_text] example_parses)
          ''ltj-dev'' (PStr ''pg_main'') (module_init 0))
     \<noteq> Inr (PList [PStr ''tie'']) \<and>
   fst (main example_config letters_lib (module_init 0)) = None \<and>
   stdout (snd (main example_config letters_lib (module_init 0))) =
     unlines
       [''Checking stores for workspaces: ltj-dev'',
        ''----------------------------------'',
        ''Store pg_main in ltj-dev has 3 unassigned layers'',
        ''Publishing them all now...'',
        ''t...OK'', ''i...OK'', ''e...OK''] \<and>
   map req_method (sent (snd (main example_config letters_lib (module_init 0)))) =
     [''GET'', ''GET'', ''POST'', ''POST'', ''POST''] \<and>
   map req_data (sent (snd (main example_config letters_lib (module_init 0)))) =
     [None, None,
      Some ''{"featureType": {"title": "t", "nativeName": "t", "name": "t", "enabled": true}}'',
      Some ''{"featureType": {"title": "i", "nativeName": "i", "name": "i", "enabled": true}}'',
      Some ''{"featureType": {"title": "e", "nativeName": "e", "name": "e", "enabled": true}}'']\<close>
  by (simp add: run_defs env_defs letters_lib_def created_def Let_def)

text \<open>
  C2. The scenario: the configuration lists the workspace \<^verbatim>\<open>ltj-dev\<close> and maps
  \<^verbatim>\<open>arvo_kaapakohteet\<close> to \<^verbatim>\<open>Valuable conks\<close>; the datastore listing of the workspace
  holds one store named \<^verbatim>\<open>pg_main\<close>; its list of available feature types holds
  \<^verbatim>\<open>arvo_kaapakohteet\<close> and \<^verbatim>\<open>unmapped_layer\<close>; both POSTs are answered. Then the run
  ends without an exception, it sent the two GETs and then the two POSTs, the first with
  title \<^verbatim>\<open>Valuable conks\<close> and the second with title \<^verbatim>\<open>unmapped_layer\<close>, and it printed
  the header, \<^verbatim>\<open>Store pg_main in ltj-dev has 2 unassigned layers\<close>, and one line per
  layer that ends in OK when the status code of its POST is 201 and in FAIL otherwise.
\<close>

theorem scenario_ltj_dev:
  assumes "workspaces cfg = [''ltj-dev'']"
    and "name_title_map cfg = [''arvo_kaapakohteet'' \<mapsto> ''Valuable conks'']"
    and "http l (rest_request cfg ''GET'' ''/workspaces/ltj-dev/datastores'' None None) w0
           = (Inr r1, w1)"
    and "json_loads l (resp_text r1) = Inr parsed1"
    and "getitem parsed1 ''dataStores'' = Inr ds"
    and "getitem ds ''dataStore'' = Inr (PList [store])"
    and "getitem store ''name'' = Inr (PStr ''pg_main'')"
    and "http l (rest_request cfg ''GET'' ''/workspaces/ltj-dev/datastores/pg_main/featuretypes''
                   (Some [(''list'', ''available'')]) None) w1
           = (Inr r2, w2)"
    and "json_loads l (resp_text r2) = Inr parsed2"
    and "getitem parsed2 ''list'' = Inr lst"
    and "getitem lst ''string'' = Inr (PList [PStr ''arvo_kaapakohteet'', PStr ''unmapped_layer''])"
    and "http l (rest_request cfg ''POST'' ''/workspaces/ltj-dev/datastores/pg_main/featuretypes''
                   None (Some (json_dumps l (feature_type (PStr ''Valuable conks'')
                      (PStr ''arvo_kaapakohteet'') (PStr ''arvo_kaapakohteet''))))) w2
           = (Inr r3, w3)"
    and "http l (rest_request cfg ''POST'' ''/workspaces/ltj-dev/datastores/pg_main/featuretypes''
                   None (Some (json_dumps l (feature_type (PStr ''unmapped_layer'')
                      (PStr ''unmapped_layer'') (PStr ''unmapped_layer''))))) w3
           = (Inr r4, w4)"
  shows "fst (main cfg l (module_init w0)) = None \<and>
         sent (snd (main cfg l (module_init w0))) =
           [rest_request cfg ''GET'' ''/workspaces/ltj-dev/datastores'' None None,
            rest_request cfg ''GET'' ''/workspaces/ltj-dev/datastores/pg_main/featuretypes''
              (Some [(''list'', ''available'')]) None,
            rest_request cfg ''POST'' ''/workspaces/ltj-dev/datastores/pg_main/featuretypes''
              None (Some (json_dumps l (feature_type (PStr ''Valuable conks'')
                      (PStr ''arvo_kaapakohteet'') (PStr ''arvo_kaapakohteet'')))),
            rest_request cfg ''POST'' ''/workspaces/ltj-dev/datastores/pg_main/featuretypes''
              None (Some (json_dumps l (feature_type (PStr ''unmapped_layer'')
                      (PStr ''unmapped_layer'') (PStr ''unmapped_layer''))))] \<and>
         stdout (snd (main cfg l (module_init w0))) =
           concat (map (\<lambda>line. line @ [CHR 0x0A])
             [''Checking stores for workspaces: ltj-dev'',
              ''----------------------------------'',
              ''Store pg_main in ltj-dev has 2 unassigned layers'',
              ''Publishing them all now...'',
              ''arvo_kaapakohteet...'' @ (if status_code r3 = 201 then ''OK'' else ''FAIL''),
              ''unmapped_layer...'' @ (if status_code r4 = 201 then ''OK'' else ''FAIL'')])"
proof -
  have c: "contains lst ''string'' = Inr True"
    using assms(11) by (rule getitem_contains)
  show ?thesis
    using assms c
    by (simp add: run_defs rest_request_def feature_type_def Let_def)
qed

theorem scenario_ltj_dev_witness:
  \<open>workspaces example_config = [''ltj-dev''] \<and>
   name_title_map example_config = [''arvo_kaapakohteet'' \<mapsto> ''Valuable conks''] \<and>
   fst (main example_config scenario_lib (module_init 0)) = None \<and>
   map req_method (sent (snd (main example_config scenario_lib (module_init 0))))
     = [''GET'', ''GET'', ''POST'', ''POST''] \<and>
   map req_data (sent (snd (main example_config scenario_lib (module_init 0))))
     = [None, None,
        Some ''{"featureType": {"title": "Valuable conks", "nativeName": "arvo_kaapakohteet", "name": "arvo_kaapakohteet", "enabled": true}}'',
        Some ''{"featureType": {"title": "unmapped_layer", "nativeName": "unmapped_layer", "name": "unmapped_layer", "enabled": true}}''] \<and>
   stdout (snd (main example_config scenario_lib (module_init 0))) =
     concat (map (\<lambda>line. line @ [CHR 0x0A])
       [''Checking stores for workspaces: ltj-dev'',
        ''----------------------------------'',
        ''Store pg_main in ltj-dev has 2 unassigned layers'',
        ''Publishing them all now...'',
        ''arvo_kaapakohteet...OK'',
        ''unmapped_layer...FAIL''])\<close>
proof -
  have h1: "workspaces example_config = [''ltj-dev'']"
    by (simp add: example_config_def)
  have h2: "name_title_map example_config = [''arvo_kaapakohteet'' \<mapsto> ''Valuable conks'']"
    by (simp add: example_config_def)
  have h3: "http scenario_lib
              (rest_request example_config ''GET'' ''/workspaces/ltj-dev/datastores'' None None) 0
              = (Inr \<lparr>status_code = 200, resp_text = stores_text\<rparr>, 1)"
    by (simp add: scenario_lib_def scripted_lib_def scripted_http_def ok200_def)
  have h4: "json_loads scenario_lib (resp_text \<lparr>status_code = 200, resp_text = stores_text\<rparr>)
              = Inr stores_value"
    by (simp add: scenario_lib_def scripted_lib_def listed_loads_def example_parses_def)
  have h5: "getitem stores_value ''dataStores''
              = Inr (PDict [(''dataStore'', PList [PDict [(''name'', PStr ''pg_main'')]])])"
    by (simp add: stores_value_def dict_get_def)
  have h6: "getitem (PDict [(''dataStore'', PList [PDict [(''name'', PStr ''pg_main'')]])])
              ''dataStore'' = Inr (PList [PDict [(''name'', PStr ''pg_main'')]])"
    by (simp add: dict_get_def)
  have h7: "getitem (PDict [(''name'', PStr ''pg_main'')]) ''name'' = Inr (PStr ''pg_main'')"
    by (simp add: dict_get_def)
  have h8: "http scenario_lib
              (rest_request example_config ''GET''
                 ''/workspaces/ltj-dev/datastores/pg_main/featuretypes''
                 (Some [(''list'', ''available'')]) None) 1
              = (Inr \<lparr>status_code = 200, resp_text = layers_text\<rparr>, 2)"
    by (simp add: scenario_lib_def scripted_lib_def scripted_http_def ok200_def)
  have h9: "json_loads scenario_lib (resp_text \<lparr>status_code = 200, resp_text = layers_text\<rparr>)
              = Inr layers_value"
    by (simp add: scenario_lib_def scripted_lib_def listed_loads_def example_parses_def
          stores_text_def layers_text_def)
  have h10: "getitem layers_value ''list''
               = Inr (PDict [(''string'',
                    PList [PStr ''arvo_kaapakohteet'', PStr ''unmapped_layer''])])"
    by (simp add: layers_value_def dict_get_def)
  have h11: "getitem (PDict [(''string'',
                    PList [PStr ''arvo_kaapakohteet'', PStr ''unmapped_layer''])]) ''string''
               = Inr (PList [PStr ''arvo_kaapakohteet'', PStr ''unmapped_layer''])"
    by (simp add: dict_get_def)
  have h12: "http scenario_lib
               (rest_request example_config ''POST''
                  ''/workspaces/ltj-dev/datastores/pg_main/featuretypes'' None
                  (Some (json_dumps scenario_lib (feature_type (PStr ''Valuable conks'')
                      (PStr ''arvo_kaapakohteet'') (PStr ''arvo_kaapakohteet''))))) 2
               = (Inr \<lparr>status_code = 201, resp_text = ''''\<rparr>, 3)"
    by (simp add: scenario_lib_def scripted_lib_def scripted_http_def)
  have h13: "http scenario_lib
               (rest_request example_config ''POST''
                  ''/workspaces/ltj-dev/datastores/pg_main/featuretypes'' None
                  (Some (json_dumps scenario_lib (feature_type (PStr ''unmapped_layer'')
                      (PStr ''unmapped_layer'') (PStr ''unmapped_layer''))))) 3
               = (Inr \<lparr>status_code = 500, resp_text = ''error''\<rparr>, 4)"
    by (simp add: scenario_lib_def scripted_lib_def scripted_http_def)
  have dumps: "json_dumps scenario_lib = json_dumps_ascii"
    by (simp add: scenario_lib_def scripted_lib_def)
  from scenario_ltj_dev [OF h1 h2 h3 h4 h5 h6 h7 h8 h9 h10 h11 h12 h13] h1 h2
  show ?thesis
    by (simp add: dumps rest_request_def feature_type_def json_string_def json_escape_char_def)
qed



text \<open>
  C4. In the layer loop, once the library has answered the POST of a layer with any
  response at all, the loop prints OK when the status code of the response is 201 and
  FAIL otherwise (the body of the response plays no part) and goes on with the remaining
  layers; a layer loop that has no layer left ends without an exception; and when the
  layer loop of a store ends without an exception, the store loop goes on with the
  remaining stores.
\<close>

theorem publish_outcome_by_status_code:
  "(getitem store ''name'' = Inr store_name \<longrightarrow>
    map_title cfg layer = Inr title \<longrightarrow>
    make_layer l layer title PNone (print_end (py_str layer @ ''...'') '''' st) = (body, st2) \<longrightarrow>
    http l (rest_request cfg ''POST''
              (''/workspaces/'' @ workspace @ ''/datastores/'' @ py_str store_name
                 @ ''/featuretypes'') None (Some body)) (world st2) = (Inr response, w') \<longrightarrow>
      layer_loop cfg l workspace store (layer # layers) st =
        layer_loop cfg l workspace store layers
          (print (if status_code response = 201 then ''OK'' else ''FAIL'')
             (record_request
                (rest_request cfg ''POST''
                   (''/workspaces/'' @ workspace @ ''/datastores/'' @ py_str store_name
                      @ ''/featuretypes'') None (Some body)) w' st2)) \<and>
      stdout (print (if status_code response = 201 then ''OK'' else ''FAIL'')
                (record_request
                   (rest_request cfg ''POST''
                      (''/workspaces/'' @ workspace @ ''/datastores/'' @ py_str store_name
                         @ ''/featuretypes'') None (Some body)) w' st2)) =
        stdout st @ py_str layer @ ''...''
          @ (if status_code response = 201 then ''OK'' else ''FAIL'') @ [CHR 0x0A]) \<and>
   layer_loop cfg l workspace store [] st = (None, st) \<and>
   (getitem store ''name'' = Inr store_name \<longrightarrow>
    get_unassigned_layers cfg l workspace store_name st = (Inr unassigned_layers, st1) \<longrightarrow>
    py_len unassigned_layers = Inr n \<longrightarrow>
    py_iter unassigned_layers = Inr store_layers \<longrightarrow>
    layer_loop cfg l workspace store store_layers
      (if truthy unassigned_layers
       then print ''Publishing them all now...''
              (print (''Store '' @ py_str store_name @ '' in '' @ workspace
                       @ '' has '' @ show_int n @ '' unassigned layers'') st1)
       else print (''Store '' @ py_str store_name @ '' in '' @ workspace
                       @ '' has '' @ show_int n @ '' unassigned layers'') st1) = (None, st4) \<longrightarrow>
      store_loop cfg l workspace (store # stores) st = store_loop cfg l workspace stores st4)"
proof (intro conjI impI)
  let ?req = "rest_request cfg ''POST''
                (''/workspaces/'' @ workspace @ ''/datastores/'' @ py_str store_name
                   @ ''/featuretypes'') None (Some body)"
  let ?verdict = "if status_code response = 201 then ''OK'' else ''FAIL''"
  assume name: "getitem store ''name'' = Inr store_name"
    and title: "map_title cfg layer = Inr title"
    and ml: "make_layer l layer title PNone (print_end (py_str layer @ ''...'') '''' st) = (body, st2)"
    and answer: "http l ?req (world st2) = (Inr response, w')"
  have pub: "publish_featuretype cfg l workspace store_name body st2 =
               (Inr (Response response), record_request ?req w' st2)"
    by (simp only: publish_featuretype_unfold answer prod.case sum.case)
  have "layer_loop cfg l workspace store (layer # layers) st =
          layer_loop cfg l workspace store layers
            (if status_code response = 201 then print ''OK'' (record_request ?req w' st2)
             else print ''FAIL'' (record_request ?req w' st2))"
    using layer_loop_step [OF name title ml pub, of layers] by simp
  also have "(if status_code response = 201 then print ''OK'' (record_request ?req w' st2)
              else print ''FAIL'' (record_request ?req w' st2)) =
             print ?verdict (record_request ?req w' st2)"
    by simp
  finally show "layer_loop cfg l workspace store (layer # layers) st =
        layer_loop cfg l workspace store layers (print ?verdict (record_request ?req w' st2))" .
  have "stdout st2 = stdout (print_end (py_str layer @ ''...'') '''' st)"
    using make_layer_stdout [of l layer title PNone "print_end (py_str layer @ ''...'') '''' st"] ml
    by simp
  then show "stdout (print ?verdict (record_request ?req w' st2)) =
        stdout st @ py_str layer @ ''...'' @ ?verdict @ [CHR 0x0A]"
    by (simp add: print_def print_end_def record_request_def)
next
  show "layer_loop cfg l workspace store [] st = (None, st)" by simp
next
  assume "getitem store ''name'' = Inr store_name"
    and "get_unassigned_layers cfg l workspace store_name st = (Inr unassigned_layers, st1)"
    and "py_len unassigned_layers = Inr n"
    and "py_iter unassigned_layers = Inr store_layers"
    and "layer_loop cfg l workspace store store_layers
      (if truthy unassigned_layers
       then print ''Publishing them all now...''
              (print (''Store '' @ py_str store_name @ '' in '' @ workspace
                       @ '' has '' @ show_int n @ '' unassigned layers'') st1)
       else print (''Store '' @ py_str store_name @ '' in '' @ workspace
                       @ '' has '' @ show_int n @ '' unassigned layers'') st1) = (None, st4)"
  from store_loop_step [OF this, of stores]
  show "store_loop cfg l workspace (store # stores) st = store_loop cfg l workspace stores st4"
    by simp
qed

theorem publish_outcome_by_status_code_witness:
  "fst (layer_loop example_config (scripted_lib [server_error, created] []) ''ltj-dev''
          pg_main_store [PStr ''unmapped_layer'', PStr ''arvo_kaapakohteet''] (module_init 0))
     = None \<and>
   stdout (snd (layer_loop example_config (scripted_lib [server_error, created] []) ''ltj-dev''
          pg_main_store [PStr ''unmapped_layer'', PStr ''arvo_kaapakohteet''] (module_init 0)))
     = concat (map (\<lambda>line. line @ [CHR 0x0A])
         [''unmapped_layer...FAIL'', ''arvo_kaapakohteet...OK'']) \<and>
   fst (store_loop example_config
          (scripted_lib [ok200 layers_text, server_error, created] example_parses) ''ltj-dev''
          [pg_main_store] (module_init 0)) = None \<and>
   stdout (snd (store_loop example_config
          (scripted_lib [ok200 layers_text, server_error, created] example_parses) ''ltj-dev''
          [pg_main_store] (module_init 0)))
     = concat (map (\<lambda>line. line @ [CHR 0x0A])
         [''Store pg_main in ltj-dev has 2 unassigned layers'',
          ''Publishing them all now...'',
          ''arvo_kaapakohteet...FAIL'', ''unmapped_layer...OK''])"
proof -
  let ?L = "scripted_lib [server_error, created] [] :: nat lib"
  let ?M = "scripted_lib [ok200 layers_text, server_error, created] example_parses :: nat lib"
  let ?st = "module_init 0 :: nat pstate"
  let ?ul = "PStr ''unmapped_layer''"
  let ?ml = "make_layer ?L ?ul ?ul PNone (print_end (py_str ?ul @ ''...'') '''' ?st)"
  have h1: "getitem pg_main_store ''name'' = Inr (PStr ''pg_main'')"
    by (simp add: pg_main_store_def dict_get_def)
  have h2: "map_title example_config ?ul = Inr ?ul"
    by (simp add: example_config_def)
  have h3: "?ml = (fst ?ml, snd ?ml)"
    by simp
  have h4: "http ?L (rest_request example_config ''POST''
              (''/workspaces/'' @ ''ltj-dev'' @ ''/datastores/'' @ py_str (PStr ''pg_main'')
                 @ ''/featuretypes'') None (Some (fst ?ml))) (world (snd ?ml))
            = (Inr \<lparr>status_code = 500, resp_text = ''error''\<rparr>, 1)"
    by (simp add: scripted_lib_def scripted_http_def server_error_def make_layer_unfold
          module_init_def print_end_def Let_def)
  note layers = publish_outcome_by_status_code
                  [THEN conjunct1, rule_format, OF h1 h2 h3 h4, of "[PStr ''arvo_kaapakohteet'']",
                   THEN conjunct1]
  let ?S1 = "print (if status_code \<lparr>status_code = 500, resp_text = ''error''\<rparr> = 201
                    then ''OK'' else ''FAIL'')
               (record_request
                  (rest_request example_config ''POST''
                     (''/workspaces/'' @ ''ltj-dev'' @ ''/datastores/'' @ py_str (PStr ''pg_main'')
                        @ ''/featuretypes'') None (Some (fst ?ml))) 1 (snd ?ml))"
  have r1: "fst (layer_loop example_config ?L ''ltj-dev'' pg_main_store
                   [PStr ''arvo_kaapakohteet''] ?S1) = None \<and>
            stdout (snd (layer_loop example_config ?L ''ltj-dev'' pg_main_store
                   [PStr ''arvo_kaapakohteet''] ?S1))
              = concat (map (\<lambda>line. line @ [CHR 0x0A])
                  [''unmapped_layer...FAIL'', ''arvo_kaapakohteet...OK''])"
    by (simp add: run_defs env_defs pg_main_store_def server_error_def created_def
          record_request_def rest_request_def Let_def)
  have c1: "fst (layer_loop example_config ?L ''ltj-dev'' pg_main_store
                   [PStr ''unmapped_layer'', PStr ''arvo_kaapakohteet''] ?st) = None \<and>
            stdout (snd (layer_loop example_config ?L ''ltj-dev'' pg_main_store
                   [PStr ''unmapped_layer'', PStr ''arvo_kaapakohteet''] ?st))
              = concat (map (\<lambda>line. line @ [CHR 0x0A])
                  [''unmapped_layer...FAIL'', ''arvo_kaapakohteet...OK''])"
    using r1 by (simp only: layers)
  let ?layers = "PList [PStr ''arvo_kaapakohteet'', PStr ''unmapped_layer'']"
  let ?gu = "get_unassigned_layers example_config ?M ''ltj-dev'' (PStr ''pg_main'') ?st"
  let ?st3 = "if truthy ?layers
       then print ''Publishing them all now...''
              (print (''Store '' @ py_str (PStr ''pg_main'') @ '' in '' @ ''ltj-dev''
                       @ '' has '' @ show_int 2 @ '' unassigned layers'') (snd ?gu))
       else print (''Store '' @ py_str (PStr ''pg_main'') @ '' in '' @ ''ltj-dev''
                       @ '' has '' @ show_int 2 @ '' unassigned layers'') (snd ?gu)"
  let ?ll = "layer_loop example_config ?M ''ltj-dev'' pg_main_store
               [PStr ''arvo_kaapakohteet'', PStr ''unmapped_layer''] ?st3"
  have "fst ?gu = Inr ?layers"
    by (simp add: run_defs env_defs)
  then have g2: "?gu = (Inr ?layers, snd ?gu)"
    by (simp add: prod_eq_iff)
  have g3: "py_len ?layers = Inr 2"
    by simp
  have g4: "py_iter ?layers = Inr [PStr ''arvo_kaapakohteet'', PStr ''unmapped_layer'']"
    by simp
  have "fst ?ll = None"
    by (simp add: run_defs env_defs pg_main_store_def server_error_def created_def Let_def)
  then have g5: "?ll = (None, snd ?ll)"
    by (simp add: prod_eq_iff)
  note stores = publish_outcome_by_status_code
                  [THEN conjunct2, THEN conjunct2, rule_format, OF h1 g2 g3 g4 g5, of "[]"]
  have r2: "stdout (snd ?ll)
     = concat (map (\<lambda>line. line @ [CHR 0x0A])
         [''Store pg_main in ltj-dev has 2 unassigned layers'',
          ''Publishing them all now...'',
          ''arvo_kaapakohteet...FAIL'', ''unmapped_layer...OK''])"
    by (simp add: run_defs env_defs pg_main_store_def server_error_def created_def Let_def)
  have c2: "fst (store_loop example_config ?M ''ltj-dev'' [pg_main_store] ?st) = None \<and>
            stdout (snd (store_loop example_config ?M ''ltj-dev'' [pg_main_store] ?st))
     = concat (map (\<lambda>line. line @ [CHR 0x0A])
         [''Store pg_main in ltj-dev has 2 unassigned layers'',
          ''Publishing them all now...'',
          ''arvo_kaapakohteet...FAIL'', ''unmapped_layer...OK''])"
    using r2 by (simp only: stores store_loop.simps(1) fst_conv snd_conv simp_thms)
  from c1 c2 show ?thesis by (simp only: simp_thms)
qed

text \<open>
  C5. A request type that is neither GET nor POST (the script compares the lower-cased
  argument with \<^verbatim>\<open>"get"\<close> and \<^verbatim>\<open>"post"\<close>) makes \<open>api_request\<close> raise
  \<^verbatim>\<open>ValueError("Invalid request type")\<close>, and the state it returns is the state it was
  given: nothing was handed to \<^verbatim>\<open>requests.request\<close>, the trace and the world are
  untouched, and the library is never consulted.
\<close>

theorem api_request_invalid_type:
  "lower rtype \<noteq> ''get'' \<Longrightarrow> lower rtype \<noteq> ''post'' \<Longrightarrow>
   api_request cfg l path rtype params data st = (Inl (ValueError ''Invalid request type''), st)"
  by (simp add: api_request_def)

theorem api_request_invalid_type_witness:
  "lower ''put'' \<noteq> ''get'' \<and> lower ''put'' \<noteq> ''post'' \<and>
   api_request example_config (scripted_lib [] []) ''/workspaces'' ''put'' None None (module_init 0)
     = (Inl (ValueError ''Invalid request type''), module_init 0) \<and>
   sent (module_init (0::nat)) = []"
  using api_request_invalid_type [of "''put''" example_config "scripted_lib [] []"
          "''/workspaces''" None None "module_init 0"]
  by (simp add: lower_def lower_char_def module_init_def)

text \<open>
  C6 (as the code has it). When a GET through \<open>api_request\<close> gets a response whose body
  \<^verbatim>\<open>json.loads\<close> rejects with \<^verbatim>\<open>JSONDecodeError\<close>, the call raises \<^verbatim>\<open>Exception\<close> with the
  message \<^verbatim>\<open>Response (code <status>) was not JSON: <body>\<close>: the message holds the status
  code in decimal and the raw body text.
\<close>

theorem api_request_not_json:
  assumes "lower rtype = ''get''"
    and "http l (rest_request cfg ''GET'' path params None) (world st) = (Inr response, w')"
    and "json_loads l (resp_text response) = Inl JSONDecodeError"
  shows "\<exists>msg. fst (api_request cfg l path rtype params data st) = Inl (Exception msg) \<and>
           msg = ''Response (code '' @ show_int (status_code response) @ '') was not JSON: ''
                   @ resp_text response \<and>
           str_contains msg (show_int (status_code response)) \<and>
           str_contains msg (resp_text response)"
proof -
  let ?msg = "''Response (code '' @ show_int (status_code response) @ '') was not JSON: ''
                @ resp_text response"
  have "fst (api_request cfg l path rtype params data st) = Inl (Exception ?msg)"
    using assms by (simp add: api_request_get_unfold not_json_message_def)
  moreover have "str_contains ?msg (show_int (status_code response))"
    by (rule str_contains_append)
  moreover have "str_contains ?msg (resp_text response)"
    using str_contains_suffix
      [of "''Response (code '' @ show_int (status_code response) @ '') was not JSON: ''"
          "resp_text response"]
    by simp
  ultimately show ?thesis by blast
qed

theorem api_request_not_json_witness:
  "lower ''GET'' = ''get'' \<and>
   http (scripted_lib [Inr not_found_response] example_parses)
     (rest_request example_config ''GET'' ''/workspaces/nope/datastores'' None None)
     (world (module_init 0)) = (Inr not_found_response, Suc 0) \<and>
   json_loads (scripted_lib [Inr not_found_response] example_parses)
     (resp_text not_found_response) = Inl JSONDecodeError \<and>
   fst (api_request example_config (scripted_lib [Inr not_found_response] example_parses)
          ''/workspaces/nope/datastores'' ''GET'' None None (module_init 0))
     = Inl (Exception ''Response (code 404) was not JSON: <html>Not Found</html>'')"
proof -
  have h1: "lower ''GET'' = ''get''" by (rule lower_GET)
  have h2: "http (scripted_lib [Inr not_found_response] example_parses)
     (rest_request example_config ''GET'' ''/workspaces/nope/datastores'' None None)
     (world (module_init 0)) = (Inr not_found_response, Suc 0)"
    by (simp add: scripted_lib_def scripted_http_def module_init_def)
  have h3: "json_loads (scripted_lib [Inr not_found_response] example_parses)
     (resp_text not_found_response) = Inl JSONDecodeError"
    by (simp add: scripted_lib_def listed_loads_def example_parses_def not_found_response_def
          stores_text_def layers_text_def single_text_def)
  have "show_int 404 = ''404''" by (simp add: show_int_def digit_char_def)
  with api_request_not_json [OF h1 h2 h3, of None] h1 h2 h3 show ?thesis
    by (simp add: not_found_response_def)
qed

text \<open>
  C6 as it is stated fails: the body of 1000 opening brackets is not valid JSON, and on it
  \<^verbatim>\<open>json.loads\<close> raises \<^verbatim>\<open>RecursionError\<close>, which the handler does not catch; the call
  ends with that exception and not with the message that holds the status code and the
  body.
\<close>

theorem api_request_deep_nesting_counterexample:
  "fst (api_request example_config deep_lib ''/workspaces/ltj-dev/datastores'' ''GET'' None None
          (module_init 0)) = Inl RecursionError \<and>
   fst (api_request example_config deep_lib ''/workspaces/ltj-dev/datastores'' ''GET'' None None
          (module_init 0))
     \<noteq> Inl (Exception (''Response (code 200) was not JSON: '' @ deep_text))"
  by (simp add: api_request_get_unfold lower_GET deep_lib_def deep_loads_def scripted_http_def
        ok200_def module_init_def)

text \<open>
  C7. For a layer name that is a key of \<^verbatim>\<open>name_title_map\<close>, \<open>map_title\<close> returns the
  mapped title; for every other layer name it returns the name itself.
\<close>

theorem map_title_lookup:
  "(name_title_map cfg n = Some t \<longrightarrow> map_title cfg (PStr n) = Inr (PStr t)) \<and>
   (n \<notin> dom (name_title_map cfg) \<longrightarrow> map_title cfg (PStr n) = Inr (PStr n))"
  by (auto simp: domIff)

theorem map_title_lookup_witness:
  "name_title_map example_config ''arvo_kaapakohteet'' = Some ''Valuable conks'' \<and>
   map_title example_config (PStr ''arvo_kaapakohteet'') = Inr (PStr ''Valuable conks'') \<and>
   ''unmapped_layer'' \<notin> dom (name_title_map example_config) \<and>
   map_title example_config (PStr ''unmapped_layer'') = Inr (PStr ''unmapped_layer'')"
  using map_title_lookup [of example_config "''arvo_kaapakohteet''" "''Valuable conks''"]
        map_title_lookup [of example_config "''unmapped_layer''" "''x''"]
  by (simp add: example_config_def domIff)

text \<open>
  C8. With the module's template in place, \<open>make_layer\<close> called without a native name
  (the default \<^verbatim>\<open>None\<close>) returns the serialisation of
  \<^verbatim>\<open>{"featureType": {title, nativeName, name, enabled}}\<close> in which \<open>nativeName\<close> is the
  name; and \<open>publish_featuretype\<close> hands exactly one request to the library: a POST of
  the given body to \<^verbatim>\<open>/workspaces/{workspace}/datastores/{store}/featuretypes\<close> under the
  configured host and prefix, whose answer it returns.
\<close>

theorem make_layer_publish_featuretype:
  assumes "template_intact st"
  shows "fst (make_layer l name title PNone st) =
           json_dumps l
             (PDict [(''featureType'',
                PDict [(''title'', title), (''nativeName'', name), (''name'', name),
                       (''enabled'', PBool True)])]) \<and>
         sent (snd (publish_featuretype cfg l workspace store body st1)) =
           sent st1 @
             [\<lparr>req_method = ''POST'',
               req_url = ''https://'' @ geoserver_host cfg @ geoserver_prefix cfg
                  @ ''/workspaces/'' @ workspace @ ''/datastores/'' @ py_str store
                  @ ''/featuretypes'',
               req_headers = [(''Accept'', ''application/json''),
                              (''Content-Type'', ''application/json''),
                              (''Authorization'', geoserver_auth cfg)],
               req_params = None, req_data = Some body\<rparr>] \<and>
         fst (publish_featuretype cfg l workspace store body st1) =
           map_sum id Response
             (fst (http l (rest_request cfg ''POST''
                     (''/workspaces/'' @ workspace @ ''/datastores/'' @ py_str store
                        @ ''/featuretypes'') None (Some body)) (world st1)))"
proof -
  have "fst (make_layer l name title PNone st) = json_dumps l (feature_type title name name)"
    using make_layer_intact [OF assms, of l name title PNone] by simp
  then have a: "fst (make_layer l name title PNone st) =
           json_dumps l
             (PDict [(''featureType'',
                PDict [(''title'', title), (''nativeName'', name), (''name'', name),
                       (''enabled'', PBool True)])])"
    by (simp add: feature_type_def)
  have b: "sent (snd (publish_featuretype cfg l workspace store body st1)) =
     sent st1 @ [rest_request cfg ''POST''
                     (''/workspaces/'' @ workspace @ ''/datastores/'' @ py_str store
                        @ ''/featuretypes'') None (Some body)]"
    by (simp add: publish_featuretype_unfold record_request_def split: prod.splits sum.splits)
  have c: "fst (publish_featuretype cfg l workspace store body st1) =
           map_sum id Response
             (fst (http l (rest_request cfg ''POST''
                     (''/workspaces/'' @ workspace @ ''/datastores/'' @ py_str store
                        @ ''/featuretypes'') None (Some body)) (world st1)))"
    by (simp add: publish_featuretype_unfold split: prod.splits sum.splits)
  from a b c show ?thesis by (simp add: rest_request_def)
qed

theorem make_layer_publish_featuretype_witness:
  \<open>template_intact (module_init (0::nat)) \<and>
   fst (make_layer (scripted_lib [] []) (PStr ''arvo_kaapakohteet'') (PStr ''Valuable conks'')
          PNone (module_init 0)) =
     ''{"featureType": {"title": "Valuable conks", "nativeName": "arvo_kaapakohteet", "name": "arvo_kaapakohteet", "enabled": true}}'' \<and>
   map req_url (sent (snd (publish_featuretype example_config (scripted_lib [] []) ''ltj-dev''
          (PStr ''pg_main'') ''{}'' (module_init 0)))) =
     [''https://geoserver.hel.fi/geoserver/rest/workspaces/ltj-dev/datastores/pg_main/featuretypes'']\<close>
  using make_layer_publish_featuretype [OF template_intact_init,
          of "scripted_lib [] []" "PStr ''arvo_kaapakohteet''" "PStr ''Valuable conks''" 0
             example_config "''ltj-dev''" "PStr ''pg_main''" "''{}''" "module_init 0"]
        template_intact_init [of "0::nat"]
  by (simp add: scripted_lib_def json_string_def json_escape_char_def example_config_def
        module_init_def)

text \<open>
  C9. Every definition \<open>make_layer\<close> builds while the module's template is in place has
  \<open>enabled\<close> true, whatever the name, the title and the native name; and in a run of the
  module body from the module's initial state, with any configuration, any library and
  any server, every POST that is sent carries such a definition.
\<close>

theorem published_definitions_enabled:
  "(template_intact st \<longrightarrow>
      (\<exists>native. fst (make_layer l name title nativeName st) =
         json_dumps l
           (PDict [(''featureType'',
              PDict [(''title'', title), (''nativeName'', native), (''name'', name),
                     (''enabled'', PBool True)])]))) \<and>
   (\<forall>req \<in> set (sent (snd (main cfg l (module_init w)))).
      req_method req = ''POST'' \<longrightarrow>
        (\<exists>title name. req_data req =
           Some (json_dumps l
             (PDict [(''featureType'',
                PDict [(''title'', title), (''nativeName'', name), (''name'', name),
                       (''enabled'', PBool True)])]))))"
proof (intro conjI impI ballI)
  assume "template_intact st"
  from make_layer_intact [OF this, of l name title nativeName]
  show "\<exists>native. fst (make_layer l name title nativeName st) =
         json_dumps l
           (PDict [(''featureType'',
              PDict [(''title'', title), (''nativeName'', native), (''name'', name),
                     (''enabled'', PBool True)])])"
    by (auto simp: feature_type_def)
next
  fix req
  assume req: "req \<in> set (sent (snd (main cfg l (module_init w))))"
    and post: "req_method req = ''POST''"
  obtain r st' where m: "main cfg l (module_init w) = (r, st')"
    by (cases "main cfg l (module_init w)")
  from run_inv_main [OF run_inv_init m] m
  have "run_inv l (snd (main cfg l (module_init w)))" by simp
  with req post
  show "\<exists>title name. req_data req =
           Some (json_dumps l
             (PDict [(''featureType'',
                PDict [(''title'', title), (''nativeName'', name), (''name'', name),
                       (''enabled'', PBool True)])]))"
    by (auto simp: run_inv_def good_request_def feature_type_def)
qed

lemma scenario_has_post:
  \<open>\<exists>req \<in> set (sent (snd (main example_config scenario_lib (module_init 0)))).
      req_method req = ''POST'' \<and>
      req_data req = Some ''{"featureType": {"title": "Valuable conks", "nativeName": "arvo_kaapakohteet", "name": "arvo_kaapakohteet", "enabled": true}}''\<close>
  by (simp add: run_defs env_defs Let_def)

theorem published_definitions_enabled_witness:
  \<open>template_intact (module_init (0::nat)) \<and>
   fst (make_layer scenario_lib (PStr ''kaapa'') (PStr ''Conks'') (PStr ''arvo_kaapakohteet'')
          (module_init 0)) =
     ''{"featureType": {"title": "Conks", "nativeName": "arvo_kaapakohteet", "name": "kaapa", "enabled": true}}'' \<and>
   (\<exists>req \<in> set (sent (snd (main example_config scenario_lib (module_init 0)))).
      req_method req = ''POST'' \<and>
      req_data req = Some ''{"featureType": {"title": "Valuable conks", "nativeName": "arvo_kaapakohteet", "name": "arvo_kaapakohteet", "enabled": true}}'')\<close>
proof -
  have a: "template_intact (module_init (0::nat))" by (rule template_intact_init)
  have b: \<open>fst (make_layer scenario_lib (PStr ''kaapa'') (PStr ''Conks'') (PStr ''arvo_kaapakohteet'')
          (module_init 0)) =
     ''{"featureType": {"title": "Conks", "nativeName": "arvo_kaapakohteet", "name": "kaapa", "enabled": true}}''\<close>
    by (simp add: make_layer_unfold module_init_def layer_template_def layer_template_value_def
          scenario_lib_def scripted_lib_def json_string_def json_escape_char_def)
  from scenario_has_post obtain req
    where r1: "req \<in> set (sent (snd (main example_config scenario_lib (module_init 0))))"
      and r2: "req_method req = ''POST''"
      and r3: \<open>req_data req = Some ''{"featureType": {"title": "Valuable conks", "nativeName": "arvo_kaapakohteet", "name": "arvo_kaapakohteet", "enabled": true}}''\<close>
    by blast
  note inst = published_definitions_enabled
         [where st = "module_init (0::nat)" and l = scenario_lib and cfg = example_config
            and w = 0 and name = "PStr ''kaapa''" and title = "PStr ''Conks''"
            and nativeName = "PStr ''arvo_kaapakohteet''"]
  from inst a have c: "\<exists>native. fst (make_layer scenario_lib (PStr ''kaapa'') (PStr ''Conks'')
        (PStr ''arvo_kaapakohteet'') (module_init 0)) =
         json_dumps scenario_lib
           (PDict [(''featureType'',
              PDict [(''title'', PStr ''Conks''), (''nativeName'', native), (''name'', PStr ''kaapa''),
                     (''enabled'', PBool True)])])"
    by (rule conjunct1 [THEN mp])
  from inst r1 r2 have d: "\<exists>title name. req_data req =
           Some (json_dumps scenario_lib
             (PDict [(''featureType'',
                PDict [(''title'', title), (''nativeName'', name), (''name'', name),
                       (''enabled'', PBool True)])]))"
    by blast
  from a b c d r1 r2 r3 show ?thesis by blast
qed

text \<open>
  C10. With the module's template in place: \<open>make_layer\<close> called with the empty string
  as native name, and with any other falsy native name, produces the definition whose
  \<open>nativeName\<close> is the name; and after any call of \<open>make_layer\<close> the template object
  holds what it held before (the call writes into a fresh copy only).
\<close>

theorem make_layer_falsy_native_name:
  assumes "template_intact st"
  shows "fst (make_layer l name title (PStr '''') st) = json_dumps l (feature_type title name name) \<and>
         (\<not> truthy nativeName \<longrightarrow>
            fst (make_layer l name title nativeName st)
              = json_dumps l (feature_type title name name)) \<and>
         heap (snd (make_layer l name title nativeName st)) ! layer_template
           = heap st ! layer_template \<and>
         template_intact (snd (make_layer l name title nativeName st))"
  using assms make_layer_intact [OF assms, of l name title "PStr ''''"]
    make_layer_intact [OF assms, of l name title nativeName]
    make_layer_keeps_objects [of layer_template st l name title nativeName]
    make_layer_preserves_intact [OF assms, of l name title nativeName]
  by (simp add: template_intact_def)

theorem make_layer_falsy_native_name_witness:
  \<open>template_intact (module_init (0::nat)) \<and>
   fst (make_layer (scripted_lib [] []) (PStr ''unmapped_layer'') (PStr ''unmapped_layer'')
          (PStr '''') (module_init 0)) =
     ''{"featureType": {"title": "unmapped_layer", "nativeName": "unmapped_layer", "name": "unmapped_layer", "enabled": true}}'' \<and>
   \<not> truthy (PList []) \<and>
   fst (make_layer (scripted_lib [] []) (PStr ''unmapped_layer'') (PStr ''unmapped_layer'')
          (PList []) (module_init 0)) =
     ''{"featureType": {"title": "unmapped_layer", "nativeName": "unmapped_layer", "name": "unmapped_layer", "enabled": true}}'' \<and>
   heap (snd (make_layer (scripted_lib [] []) (PStr ''unmapped_layer'') (PStr ''unmapped_layer'')
          (PList []) (module_init 0))) ! layer_template = layer_template_value\<close>
  using make_layer_falsy_native_name [OF template_intact_init,
          of "scripted_lib [] []" "PStr ''unmapped_layer''" "PStr ''unmapped_layer''" 0 "PList []"]
        template_intact_init [of "0::nat"]
  by (simp add: scripted_lib_def feature_type_def json_string_def json_escape_char_def
        module_init_def layer_template_def)

end
